theory Spec2Isabelle
  imports Main "HOL-Library.Word" "HOL-Library.Sublist" "HOL-Library.Multiset"
begin

unbundle bit_operations_syntax

section \<open>mbtool utilities: the AROMA template rewriter and the zip generator\<close>

text \<open>
  A shallow embedding of \<^verbatim>\<open>src/mbtool/utilities.cpp\<close>: \<^verbatim>\<open>generate_aroma_config\<close> and the
  class \<^verbatim>\<open>AromaGenerator\<close>. A \<^verbatim>\<open>std::string\<close> and a \<^verbatim>\<open>std::vector<unsigned char>\<close> are
  both lists of 8-bit characters (\<^typ>\<open>string\<close>). Strings handed to \<^verbatim>\<open>%s\<close> through
  \<^verbatim>\<open>c_str()\<close> are C strings (ROM identifiers are directory names, paths come from fts).
\<close>

subsection \<open>Collaborators outside the file\<close>

text \<open>\<^verbatim>\<open>Rom\<close> (roms.h): the fields this file reads.\<close>

record Rom =
  rom_id :: string
  system_path :: string
  cache_path :: string
  data_path :: string

text \<open>\<^verbatim>\<open>tm_zip\<close> and \<^verbatim>\<open>zip_fileinfo\<close> (minizip), all fields; \<^verbatim>\<open>mode_t\<close> is 32 bits wide and
  the attribute value is computed at that width.\<close>

record tm_zip =
  tm_sec :: nat
  tm_min :: nat
  tm_hour :: nat
  tm_mday :: nat
  tm_mon :: nat
  tm_year :: nat

record zip_fileinfo =
  tmz_date :: tm_zip
  dosDate :: "32 word"
  internal_fa :: "32 word"
  external_fa :: "32 word"

datatype zip_method = Z_DEFLATED
datatype zip_level = Z_DEFAULT_COMPRESSION

text \<open>The calls made on the archive handle \<^verbatim>\<open>_zf\<close>, in the order they are made. The null
  extra fields and comment of \<^verbatim>\<open>zipOpenNewFileInZip2_64\<close> are not recorded; its arguments here
  are filename, zip_fileinfo, method, level, raw and zip64.\<close>

datatype zip_call =
    ZipOpen2_64 string
  | ZipOpenNewFileInZip2_64 string zip_fileinfo zip_method zip_level bool bool
  | ZipWriteInFileInZip string
  | ZipCloseFileInZip
  | ZipClose

text \<open>\<^verbatim>\<open>struct stat\<close>: the field this file reads.\<close>

record stat =
  st_mode :: "32 word"

text \<open>
  An open source file: what \<^verbatim>\<open>fstat\<close> answers (\<open>None\<close>: it fails), the offset
  \<^verbatim>\<open>lseek64(fd, 0, SEEK_CUR)\<close> reports after seeking to the end, converted to \<^verbatim>\<open>uint64_t\<close>,
  and the successive results of \<^verbatim>\<open>read(fd, buf, sizeof(buf))\<close>: the returned count and the
  buffer. After the listed results \<^verbatim>\<open>read\<close> returns 0 (end of file).
\<close>

record file_desc =
  fstat :: "stat option"
  lseek64_end :: "64 word"
  read_results :: "(int \<times> string) list"

text \<open>Arguments of a log call: a string, an integer, or \<^verbatim>\<open>strerror(errno)\<close>.\<close>

datatype log_arg = S string | I int | StrError

datatype log_call =
    LOGD string "log_arg list"
  | LOGW string "log_arg list"
  | LOGE string "log_arg list"

text \<open>
  Everything the file takes from elsewhere: the macro \<^verbatim>\<open>MBP_VERSION\<close>, the constants
  \<^verbatim>\<open>ZIP_OK\<close>, \<^verbatim>\<open>Action::FTS_OK\<close> and \<^verbatim>\<open>Action::FTS_Fail\<close>, whose values are declared in
  headers outside the file, the ROM list that \<^verbatim>\<open>Roms::add_installed\<close> fills in, the outcome
  of \<^verbatim>\<open>RomConfig::load_file\<close> (\<open>Some name\<close>: it returned true and left \<open>name\<close> in
  \<^verbatim>\<open>config.name\<close>), of \<^verbatim>\<open>util::file_read_all\<close> (\<open>Some bytes\<close>: it returned true), of
  \<^verbatim>\<open>open64\<close> (\<open>None\<close>: a negative descriptor), of \<^verbatim>\<open>zipOpen2_64\<close> (whether the handle is
  non-null), and the return code of each later minizip call, which may depend on all calls
  made so far (the last element of the list is the call that returns).
\<close>

record env =
  MBP_VERSION :: string
  ZIP_OK :: int
  FTS_OK :: int
  FTS_Fail :: int
  add_installed :: "Rom list"
  load_file :: "string \<Rightarrow> string option"
  file_read_all :: "string \<Rightarrow> string option"
  open64 :: "string \<Rightarrow> file_desc option"
  zipOpen2_64 :: "string \<Rightarrow> bool"
  zip_ret :: "zip_call list \<Rightarrow> int"

subsection \<open>String helpers\<close>

text \<open>
  Modelled from the spec: \<^verbatim>\<open>util::replace_all\<close> (util/string.h) is not part of the file. The
  spec calls it literal substring substitution on a single buffer: the buffer is scanned from
  the left, every occurrence of the token found is replaced, and the scan goes on behind
  the inserted text. An empty token changes nothing.
\<close>

function replace_all :: "string \<Rightarrow> string \<Rightarrow> string \<Rightarrow> string" where
  "replace_all source frm to =
     (if frm = [] \<or> source = [] then source
      else if prefix frm source
        then to @ replace_all (drop (length frm) source) frm to
        else hd source # replace_all (tl source) frm to)"
  by pat_completeness auto
termination
  by (relation "measure (\<lambda>(source, frm, to). length source)") auto

declare replace_all.simps [simp del]

text \<open>
  Modelled from the spec: \<^verbatim>\<open>util::format\<close> (util/string.h) is not part of the file. It is
  \<^verbatim>\<open>printf\<close>-style formatting into a string; the spec calls its outputs fixed-layout records.
  Here each call is written as the concatenation it produces: \<^verbatim>\<open>%s\<close> puts the C string in
  place, and \<^verbatim>\<open>%d\<close> and \<^verbatim>\<open>%zu\<close>, on a value that is not negative, its decimal numeral.
\<close>

fun format_decimal :: "nat \<Rightarrow> string" where
  "format_decimal n =
     (if n < 10 then [''0123456789'' ! n]
      else format_decimal (n div 10) @ [''0123456789'' ! (n mod 10)])"

declare format_decimal.simps [simp del]

subsection \<open>generate_aroma_config\<close>

text \<open>
  The loop of lines 211 to 232 with its two accumulators. The index is a \<^verbatim>\<open>size_t\<close>; a
  vector has far fewer than \<open>2 ^ 64 - 3\<close> elements, so \<open>i + 2 + 1\<close> does not wrap and is
  a natural number here.
\<close>

function rom_items_loop :: "env \<Rightarrow> Rom list \<Rightarrow> nat \<Rightarrow> string \<times> string \<Rightarrow> string \<times> string" where
  "rom_items_loop e roms i (rom_menu_items, rom_selection_items) =
     (if i < length roms then
        (let rom = roms ! i;
             config_path = ''/data/media/0/MultiBoot/'' @ rom_id rom @ ''/config.json'';
             name = (case load_file e config_path of Some config_name \<Rightarrow> config_name
                     | None \<Rightarrow> rom_id rom)
         in rom_items_loop e roms (i + 1)
              (rom_menu_items @ ''\"'' @ name @ ''\", \"\", \"@default\",'' @ [CHR 0x0A],
               rom_selection_items
                 @ ''if prop(\"operations.prop\", \"selected\") == \"'' @ format_decimal (i + 2 + 1)
                 @ ''\" then'' @ [CHR 0x0A]
                 @ ''    setvar(\"romid\", \"'' @ rom_id rom @ ''\");'' @ [CHR 0x0A]
                 @ ''    setvar(\"romname\", \"'' @ name @ ''\");'' @ [CHR 0x0A]
                 @ ''endif;'' @ [CHR 0x0A]))
      else (rom_menu_items, rom_selection_items))"
  by pat_completeness auto
termination
  by (relation "measure (\<lambda>(e, roms, i, acc). length roms - i)") auto

declare rom_items_loop.simps [simp del]

definition generate_aroma_config :: "env \<Rightarrow> string \<Rightarrow> string" where
  "generate_aroma_config e data =
     (let str_data = data;
          roms = add_installed e;
          (rom_menu_items, rom_selection_items) = rom_items_loop e roms 0 ([], []);
          str_data = replace_all str_data [CHR 0x09] [CHR 0x5C, CHR ''t''];
          str_data = replace_all str_data ''@MBTOOL_VERSION@'' (MBP_VERSION e);
          str_data = replace_all str_data ''@ROM_MENU_ITEMS@'' rom_menu_items;
          str_data = replace_all str_data ''@ROM_SELECTION_ITEMS@'' rom_selection_items;
          str_data = replace_all str_data ''@FIRST_INDEX@'' (format_decimal (2 + 1));
          str_data = replace_all str_data ''@LAST_INDEX@'' (format_decimal (2 + length roms))
      in str_data)"

subsection \<open>The generator's state and the minizip calls\<close>

text \<open>What a run of the generator leaves behind: the calls made on the archive handle and
  the lines logged, both in order.\<close>

record state =
  zf_calls :: "zip_call list"
  logged :: "log_call list"

definition log :: "log_call \<Rightarrow> state \<Rightarrow> state" where
  "log l st = st\<lparr>logged := logged st @ [l]\<rparr>"

text \<open>One call of \<^verbatim>\<open>zipOpenNewFileInZip2_64\<close>, \<^verbatim>\<open>zipWriteInFileInZip\<close>,
  \<^verbatim>\<open>zipCloseFileInZip\<close> or \<^verbatim>\<open>zipClose\<close>: the call is recorded and its return code read.\<close>

definition minizip :: "env \<Rightarrow> zip_call \<Rightarrow> state \<Rightarrow> int \<times> state" where
  "minizip e c st =
     (let calls = zf_calls st @ [c] in (zip_ret e calls, st\<lparr>zf_calls := calls\<rparr>))"

text \<open>\<^verbatim>\<open>memset(&zi, 0, sizeof(zi))\<close>.\<close>

definition zi_zero :: zip_fileinfo where
  "zi_zero =
     \<lparr>tmz_date = \<lparr>tm_sec = 0, tm_min = 0, tm_hour = 0, tm_mday = 0, tm_mon = 0, tm_year = 0\<rparr>,
      dosDate = 0, internal_fa = 0, external_fa = 0\<rparr>"

subsection \<open>AromaGenerator::add_file, from a buffer\<close>

text \<open>Line 343 hands \<^verbatim>\<open>contents.size()\<close> to the \<^verbatim>\<open>unsigned\<close> length parameter of
  \<^verbatim>\<open>zipWriteInFileInZip\<close>: the call writes the first \<open>size mod 2 ^ 32\<close> bytes of the buffer.\<close>

definition add_file_contents :: "env \<Rightarrow> string \<Rightarrow> string \<Rightarrow> state \<Rightarrow> bool \<times> state" where
  "add_file_contents e name contents st =
     (let zip64 = ((of_nat (length contents) :: 64 word) \<ge> push_bit 32 1 - 1);
          zi = zi_zero
      in case minizip e (ZipOpenNewFileInZip2_64 name zi Z_DEFLATED Z_DEFAULT_COMPRESSION
                           False zip64) st of
        (ret, st1) \<Rightarrow>
          if ret \<noteq> ZIP_OK e then
            (False, log (LOGW ''minizip: Failed to add file (error code: %d): [memory]'' [I ret]) st1)
          else
            (case minizip e (ZipWriteInFileInZip
                               (take (unat (of_nat (length contents) :: 32 word)) contents)) st1 of
               (ret, st2) \<Rightarrow>
                 if ret \<noteq> ZIP_OK e then
                   (False,
                    snd (minizip e ZipCloseFileInZip
                      (log (LOGW ''minizip: Failed to write data (error code: %d): [memory]''
                         [I ret]) st2)))
                 else (True, snd (minizip e ZipCloseFileInZip st2))))"

subsection \<open>AromaGenerator::add_file, from a path\<close>

text \<open>Lines 420 to 430, with \<open>n\<close> the count of the \<^verbatim>\<open>read\<close> that ended the loop.\<close>

definition after_read_loop :: "env \<Rightarrow> string \<Rightarrow> int \<Rightarrow> state \<Rightarrow> bool \<times> state" where
  "after_read_loop e path n st =
     (if n < 0 then
        (False,
         log (LOGE ''%s: Failed to read file: %s'' [S path, StrError])
           (snd (minizip e ZipCloseFileInZip st)))
      else (True, snd (minizip e ZipCloseFileInZip st)))"

text \<open>The loop of lines 409 to 418 over the results of \<^verbatim>\<open>read\<close>; the \<open>n\<close> bytes read are
  the first \<open>n\<close> of the buffer. In \<open>add_file_path\<close> below, the octal mask \<^verbatim>\<open>0777\<close> is
  written \<open>0x1FF\<close>.\<close>

fun read_write_loop :: "env \<Rightarrow> string \<Rightarrow> (int \<times> string) list \<Rightarrow> state \<Rightarrow> bool \<times> state" where
  "read_write_loop e path [] st = after_read_loop e path 0 st"
| "read_write_loop e path ((n, buf) # rest) st =
     (if n > 0 then
        (case minizip e (ZipWriteInFileInZip (take (nat n) buf)) st of
           (ret, st1) \<Rightarrow>
             if ret \<noteq> ZIP_OK e then
               (False,
                snd (minizip e ZipCloseFileInZip
                  (log (LOGW ''minizip: Failed to write data (error code: %d): %s''
                     [I ret, S path]) st1)))
             else read_write_loop e path rest st1)
      else after_read_loop e path n st)"

definition add_file_path :: "env \<Rightarrow> string \<Rightarrow> string \<Rightarrow> state \<Rightarrow> bool \<times> state" where
  "add_file_path e name path st =
     (case open64 e path of
        None \<Rightarrow> (False, log (LOGE ''%s: Failed to open for reading: %s'' [S path, StrError]) st)
      | Some fd \<Rightarrow>
          (case fstat fd of
             None \<Rightarrow> (False, log (LOGE ''%s: Failed to stat: %s'' [S path, StrError]) st)
           | Some sb \<Rightarrow>
               (let size = lseek64_end fd;
                    zip64 = (size \<ge> push_bit 32 1 - 1);
                    zi = zi_zero\<lparr>external_fa := push_bit 16 (st_mode sb AND 0x1FF)\<rparr>
                in case minizip e (ZipOpenNewFileInZip2_64 name zi Z_DEFLATED
                                     Z_DEFAULT_COMPRESSION False zip64) st of
                  (ret, st1) \<Rightarrow>
                    if ret \<noteq> ZIP_OK e then
                      (False,
                       log (LOGW ''minizip: Failed to add file (error code: %d): %s''
                              [I ret, S path]) st1)
                    else read_write_loop e path (read_results fd) st1)))"

subsection \<open>The callbacks of AromaGenerator\<close>

text \<open>\<^verbatim>\<open>FTSENT\<close>: the fields this file reads.\<close>

record FTSENT =
  fts_path :: string
  fts_accpath :: string

datatype error = Out_Of_Range

text \<open>\<^verbatim>\<open>std::string::substr(pos)\<close> throws \<^verbatim>\<open>std::out_of_range\<close> when \<open>pos\<close> is beyond the
  size.\<close>

definition substr :: "string \<Rightarrow> nat \<Rightarrow> error + string" where
  "substr s pos = (if pos > length s then Inl Out_Of_Range else Inr (drop pos s))"

definition on_pre_execute :: "env \<Rightarrow> string \<Rightarrow> state \<Rightarrow> bool \<times> state" where
  "on_pre_execute e zippath st =
     (let st1 = st\<lparr>zf_calls := zf_calls st @ [ZipOpen2_64 zippath]\<rparr>
      in if \<not> zipOpen2_64 e zippath then
           (False, log (LOGE ''%s: Failed to open for writing'' [S zippath]) st1)
         else (True, st1))"

definition on_post_execute :: "env \<Rightarrow> bool \<Rightarrow> state \<Rightarrow> bool \<times> state" where
  "on_post_execute e success st =
     (case minizip e ZipClose st of (ret, st1) \<Rightarrow> (ret = ZIP_OK e, st1))"

text \<open>The callback returns \<^verbatim>\<open>int\<close>; \<^verbatim>\<open>return false\<close> on line 282 is the integer 0. The member
  \<^verbatim>\<open>_path\<close> is the argument \<open>root\<close>, \<^verbatim>\<open>_curr\<close> is \<open>cur\<close>.\<close>

definition on_reached_file :: "env \<Rightarrow> string \<Rightarrow> FTSENT \<Rightarrow> state \<Rightarrow> (error + int) \<times> state" where
  "on_reached_file e root cur st =
     (case substr (fts_path cur) (length root + 1) of
        Inl err \<Rightarrow> (Inl err, st)
      | Inr name \<Rightarrow>
          (let st1 = log (LOGD ''%s -> %s'' [S (fts_path cur), S name]) st
           in if name = ''META-INF/com/google/android/aroma-config.in'' then
                (case file_read_all e (fts_accpath cur) of
                   None \<Rightarrow>
                     (Inr (of_bool False),
                      log (LOGE ''Failed to read: %s'' [S (fts_path cur)]) st1)
                 | Some data \<Rightarrow>
                     (case add_file_contents e ''META-INF/com/google/android/aroma-config''
                             (generate_aroma_config e data) st1 of
                        (ret, st2) \<Rightarrow> (Inr (if ret then FTS_OK e else FTS_Fail e), st2)))
              else
                (case add_file_path e name (fts_accpath cur) st1 of
                   (ret, st2) \<Rightarrow> (Inr (if ret then FTS_OK e else FTS_Fail e), st2))))"

definition on_reached_symlink :: "env \<Rightarrow> FTSENT \<Rightarrow> state \<Rightarrow> int \<times> state" where
  "on_reached_symlink e cur st =
     (FTS_OK e, log (LOGW ''Ignoring symlink when creating zip: %s'' [S (fts_path cur)]) st)"

definition on_reached_special_file :: "env \<Rightarrow> FTSENT \<Rightarrow> state \<Rightarrow> int \<times> state" where
  "on_reached_special_file e cur st =
     (FTS_OK e,
      log (LOGW ''Ignoring special file when creating zip: %s'' [S (fts_path cur)]) st)"

subsection \<open>The walk\<close>

datatype node_kind = Regular_File | Directory | Symlink | Special_File

text \<open>
  Modelled from the spec: \<^verbatim>\<open>FTSWrapper::run\<close> (util/fts.h) is not part of the file. The spec
  gives the walker's contract: \<^verbatim>\<open>on_pre_execute\<close> opens the archive and its failure aborts
  before any traversal; each node is dispatched by kind; a regular file goes to the reached-file
  handler and an error return from it is fatal to the walk (traversal stops, the close is still
  attempted); a symlink or a special file goes to its handler and the traversal continues;
  directories are only descended into; \<^verbatim>\<open>on_post_execute\<close> closes the archive and its failure
  overrides a prior success. The nodes are given in the order the traversal delivers them. An
  error return is the value \<^verbatim>\<open>Action::FTS_Fail\<close>. An exception thrown by a handler leaves the
  walk at once.
\<close>

fun walk :: "env \<Rightarrow> string \<Rightarrow> (node_kind \<times> FTSENT) list \<Rightarrow> state \<Rightarrow> (error + bool) \<times> state" where
  "walk e root [] st = (Inr True, st)"
| "walk e root ((Regular_File, cur) # nodes) st =
     (case on_reached_file e root cur st of
        (Inl err, st1) \<Rightarrow> (Inl err, st1)
      | (Inr ret, st1) \<Rightarrow> if ret = FTS_Fail e then (Inr False, st1) else walk e root nodes st1)"
| "walk e root ((Directory, cur) # nodes) st = walk e root nodes st"
| "walk e root ((Symlink, cur) # nodes) st =
     walk e root nodes (snd (on_reached_symlink e cur st))"
| "walk e root ((Special_File, cur) # nodes) st =
     walk e root nodes (snd (on_reached_special_file e cur st))"

definition run :: "env \<Rightarrow> string \<Rightarrow> string \<Rightarrow> (node_kind \<times> FTSENT) list \<Rightarrow> state
    \<Rightarrow> (error + bool) \<times> state" where
  "run e root zippath nodes st =
     (case on_pre_execute e zippath st of
        (False, st1) \<Rightarrow> (Inr False, st1)
      | (True, st1) \<Rightarrow>
          (case walk e root nodes st1 of
             (Inl err, st2) \<Rightarrow> (Inl err, st2)
           | (Inr success, st2) \<Rightarrow>
               (case on_post_execute e success st2 of
                  (closed, st3) \<Rightarrow> (Inr (success \<and> closed), st3))))"

subsection \<open>Observations used in the statements\<close>

text \<open>The entries opened in the archive: filename, file info and zip64 flag of every
  \<^verbatim>\<open>zipOpenNewFileInZip2_64\<close> call, in order.\<close>

fun opened_entries :: "zip_call list \<Rightarrow> (string \<times> zip_fileinfo \<times> bool) list" where
  "opened_entries [] = []"
| "opened_entries (ZipOpenNewFileInZip2_64 name zi m l raw zip64 # cs) =
     (name, zi, zip64) # opened_entries cs"
| "opened_entries (c # cs) = opened_entries cs"

text \<open>The six \<^verbatim>\<open>replace_all\<close> calls of lines 234 to 240 as pairs of token and replacement, in
  the order of the code, and the application of such a list of calls to a buffer from left to
  right.\<close>

definition substitutions :: "env \<Rightarrow> (string \<times> string) list" where
  "substitutions e =
     [([CHR 0x09], [CHR 0x5C, CHR ''t'']),
      (''@MBTOOL_VERSION@'', MBP_VERSION e),
      (''@ROM_MENU_ITEMS@'', fst (rom_items_loop e (add_installed e) 0 ([], []))),
      (''@ROM_SELECTION_ITEMS@'', snd (rom_items_loop e (add_installed e) 0 ([], []))),
      (''@FIRST_INDEX@'', format_decimal (2 + 1)),
      (''@LAST_INDEX@'', format_decimal (2 + length (add_installed e)))]"


text \<open>The claim's words for a streaming error of a path-sourced entry: with the calls made
  so far and the pending results of \<^verbatim>\<open>read\<close>, some \<^verbatim>\<open>read\<close> fails (a negative count) or some
  \<^verbatim>\<open>zipWriteInFileInZip\<close> does not return \<^verbatim>\<open>ZIP_OK\<close> before the end of the file.\<close>

fun stream_error :: "env \<Rightarrow> zip_call list \<Rightarrow> (int \<times> string) list \<Rightarrow> bool" where
  "stream_error e calls [] = False"
| "stream_error e calls ((n, buf) # rest) =
     (if n < 0 then True
      else if n = 0 then False
      else (let calls1 = calls @ [ZipWriteInFileInZip (take (nat n) buf)]
            in zip_ret e calls1 \<noteq> ZIP_OK e \<or> stream_error e calls1 rest))"

text \<open>The values the reached-file handler returns during a walk, one for each of its
  invocations, in order.\<close>

fun file_handler_returns :: "env \<Rightarrow> string \<Rightarrow> (node_kind \<times> FTSENT) list \<Rightarrow> state \<Rightarrow> int list" where
  "file_handler_returns e root [] st = []"
| "file_handler_returns e root ((Regular_File, cur) # nodes) st =
     (case on_reached_file e root cur st of
        (Inl err, st1) \<Rightarrow> []
      | (Inr ret, st1) \<Rightarrow>
          ret # (if ret = FTS_Fail e then [] else file_handler_returns e root nodes st1))"
| "file_handler_returns e root ((Directory, cur) # nodes) st = file_handler_returns e root nodes st"
| "file_handler_returns e root ((Symlink, cur) # nodes) st =
     file_handler_returns e root nodes (snd (on_reached_symlink e cur st))"
| "file_handler_returns e root ((Special_File, cur) # nodes) st =
     file_handler_returns e root nodes (snd (on_reached_special_file e cur st))"

text \<open>The claim's words for the name shown for a ROM: the display name of its config file
  when the load succeeds, its identifier otherwise; and the menu record of line 223 for it.\<close>

definition display_name :: "env \<Rightarrow> Rom \<Rightarrow> string" where
  "display_name e rom =
     (case load_file e (''/data/media/0/MultiBoot/'' @ rom_id rom @ ''/config.json'') of
        Some config_name \<Rightarrow> config_name
      | None \<Rightarrow> rom_id rom)"

definition menu_record :: "env \<Rightarrow> Rom \<Rightarrow> string" where
  "menu_record e rom = ''\"'' @ display_name e rom @ ''\", \"\", \"@default\",'' @ [CHR 0x0A]"













subsection \<open>Sample inputs\<close>

text \<open>A device with the given ROMs and display-name configs, version 8.0.0, the constants
  \<^verbatim>\<open>ZIP_OK = 0\<close>, \<^verbatim>\<open>FTS_OK = 0\<close>, \<^verbatim>\<open>FTS_Fail = 1\<close>, the given files, and a minizip whose calls
  all succeed.\<close>

definition sample_env :: "Rom list \<Rightarrow> (string \<Rightarrow> string option) \<Rightarrow> (string \<Rightarrow> string option)
    \<Rightarrow> (string \<Rightarrow> file_desc option) \<Rightarrow> env" where
  "sample_env roms configs contents files =
     \<lparr>MBP_VERSION = ''8.0.0'', ZIP_OK = 0, FTS_OK = 0, FTS_Fail = 1, add_installed = roms,
      load_file = configs, file_read_all = contents, open64 = files,
      zipOpen2_64 = (\<lambda>zippath. True), zip_ret = (\<lambda>calls. 0)\<rparr>"

definition sample_rom :: "string \<Rightarrow> Rom" where
  "sample_rom i = \<lparr>rom_id = i, system_path = ''/system'', cache_path = ''/cache'',
     data_path = ''/data''\<rparr>"

text \<open>An open file with the given mode, end offset and read results, on which \<^verbatim>\<open>fstat\<close>
  succeeds.\<close>

definition sample_file :: "32 word \<Rightarrow> 64 word \<Rightarrow> (int \<times> string) list \<Rightarrow> file_desc" where
  "sample_file mode end_offset reads =
     \<lparr>fstat = Some \<lparr>st_mode = mode\<rparr>, lseek64_end = end_offset, read_results = reads\<rparr>"

text \<open>A small tree under the root \<^verbatim>\<open>tpl\<close>, a minizip on which only \<^verbatim>\<open>zipClose\<close> fails, the
  node of the template under that root, an ordinary template with a tab and all five
  placeholders, given by its leading text and its segments, and a device with two ROMs, one of
  them with a display name, whose template file holds that template.\<close>

definition sample_nodes :: "(node_kind \<times> FTSENT) list" where
  "sample_nodes =
     [(Directory, \<lparr>fts_path = ''tpl/system'', fts_accpath = ''tpl/system''\<rparr>),
      (Regular_File, \<lparr>fts_path = ''tpl/system/a'', fts_accpath = ''tpl/system/a''\<rparr>),
      (Symlink, \<lparr>fts_path = ''tpl/link'', fts_accpath = ''tpl/link''\<rparr>)]"

definition close_fails :: "zip_call list \<Rightarrow> int" where
  "close_fails calls = (case last calls of ZipClose \<Rightarrow> - 1 | _ \<Rightarrow> 0)"






definition empty_state :: state where
  "empty_state = \<lparr>zf_calls = [], logged = []\<rparr>"

section \<open>The template rewriter\<close>

subsection \<open>Helper facts\<close>

lemma format_decimal_2: "format_decimal 2 = ''2''" by (simp add: format_decimal.simps)
lemma format_decimal_3: "format_decimal 3 = ''3''" by (simp add: format_decimal.simps)

lemma rom_items_loop_Nil: "rom_items_loop e [] i acc = acc"
  by (cases acc) (simp add: rom_items_loop.simps)

lemma rom_items_loop_menu:
  "fst (rom_items_loop e roms i (menu, sel)) = menu @ concat (map (menu_record e) (drop i roms))"
proof (induction e roms i "(menu, sel)" arbitrary: menu sel rule: rom_items_loop.induct)
  case (1 e roms i menu sel)
  show ?case
  proof (cases "i < length roms")
    case True
    then have d: "drop i roms = roms ! i # drop (Suc i) roms"
      by (simp add: Cons_nth_drop_Suc)
    show ?thesis
      using True 1(1)[OF True refl refl refl]
      by (subst rom_items_loop.simps) (simp add: d Let_def menu_record_def display_name_def)
  next
    case False
    then show ?thesis by (subst rom_items_loop.simps) simp
  qed
qed






lemma count_menu_record:
  "CHR 0x0A \<notin> set (display_name e rom) \<Longrightarrow> count_list (menu_record e rom) (CHR 0x0A) = 1"
  by (simp add: menu_record_def)

lemma count_concat_records:
  "\<forall>rom\<in>set roms. CHR 0x0A \<notin> set (display_name e rom) \<Longrightarrow>
   count_list (concat (map (menu_record e) roms)) (CHR 0x0A) = length roms"
  by (induction roms) (simp_all add: count_menu_record)

subsection \<open>The index values\<close>

text \<open>
  C1, as amended. \<^verbatim>\<open>generate_aroma_config\<close> is the six replacements in the order of the
  code; the value put in place of the first-index token is 3, the reserved-slot offset, and
  the value put in place of the last-index token is the decimal numeral of 2 plus the number
  of installed ROMs. With no installed ROM the menu items and the selection items are both
  empty and the last-index value is 2.
\<close>

theorem generate_aroma_config_indices:
  "generate_aroma_config e data =
     replace_all (replace_all (replace_all (replace_all (replace_all (replace_all data
       [CHR 0x09] [CHR 0x5C, CHR ''t''])
       ''@MBTOOL_VERSION@'' (MBP_VERSION e))
       ''@ROM_MENU_ITEMS@'' (fst (rom_items_loop e (add_installed e) 0 ([], []))))
       ''@ROM_SELECTION_ITEMS@'' (snd (rom_items_loop e (add_installed e) 0 ([], []))))
       ''@FIRST_INDEX@'' ''3'')
       ''@LAST_INDEX@'' (format_decimal (2 + length (add_installed e)))
   \<and> (add_installed e = [] \<longrightarrow>
         rom_items_loop e (add_installed e) 0 ([], []) = ([], [])
         \<and> format_decimal (2 + length (add_installed e)) = ''2'')"
  by (simp add: generate_aroma_config_def Let_def case_prod_beta format_decimal_3
      format_decimal_2 rom_items_loop_Nil)

theorem generate_aroma_config_indices_witness:
  "add_installed (sample_env [] (\<lambda>p. None) (\<lambda>p. None) (\<lambda>p. None)) = []
   \<and> generate_aroma_config (sample_env [] (\<lambda>p. None) (\<lambda>p. None) (\<lambda>p. None))
        ''@ROM_MENU_ITEMS@@ROM_SELECTION_ITEMS@@FIRST_INDEX@,@LAST_INDEX@'' = ''3,2''"
proof -
  have h: "add_installed (sample_env [] (\<lambda>p. None) (\<lambda>p. None) (\<lambda>p. None)) = []"
    by (simp add: sample_env_def)
  have "replace_all (replace_all (replace_all (replace_all (replace_all (replace_all
       ''@ROM_MENU_ITEMS@@ROM_SELECTION_ITEMS@@FIRST_INDEX@,@LAST_INDEX@''
       [CHR 0x09] [CHR 0x5C, CHR ''t''])
       ''@MBTOOL_VERSION@'' ''8.0.0'')
       ''@ROM_MENU_ITEMS@'' [])
       ''@ROM_SELECTION_ITEMS@'' [])
       ''@FIRST_INDEX@'' ''3'')
       ''@LAST_INDEX@'' ''2'' = ''3,2''"
    by code_simp
  then show ?thesis
    using h generate_aroma_config_indices
      [of "sample_env [] (\<lambda>p. None) (\<lambda>p. None) (\<lambda>p. None)"
          "''@ROM_MENU_ITEMS@@ROM_SELECTION_ITEMS@@FIRST_INDEX@,@LAST_INDEX@''"]
    by (simp add: sample_env_def)
qed

text \<open>The claim as written gives 3 for the last index with no ROM and 4 with one ROM; the
  code rewrites the token to 2 and to 3.\<close>

theorem last_index_counterexample:
  "generate_aroma_config (sample_env [] (\<lambda>p. None) (\<lambda>p. None) (\<lambda>p. None))
     ''@FIRST_INDEX@,@LAST_INDEX@'' = ''3,2''
   \<and> generate_aroma_config (sample_env [sample_rom ''primary''] (\<lambda>p. None) (\<lambda>p. None) (\<lambda>p. None))
     ''@FIRST_INDEX@,@LAST_INDEX@'' = ''3,3''"
  by code_simp

subsection \<open>The menu items\<close>

lemma count_menu_record_exact:
  "count_list (menu_record e rom) (CHR 0x0A) = 1 + count_list (display_name e rom) (CHR 0x0A)"
  by (simp add: menu_record_def)

lemma count_concat_records_exact:
  "count_list (concat (map (menu_record e) roms)) (CHR 0x0A)
     = length roms + sum_list (map (\<lambda>rom. count_list (display_name e rom) (CHR 0x0A)) roms)"
  by (induction roms) (simp_all add: count_menu_record_exact)

text \<open>
  C8, as amended. The menu items are the menu records of the installed ROMs, one for each ROM
  and in the order of the ROM list, each showing the display name the config file gave or else
  the identifier. The shown name is put in unchanged, so the block has one line feed for each
  ROM and one more for each line feed inside a shown name: it has exactly one line for each ROM
  when no shown name contains a line feed.
\<close>

theorem menu_items_one_record_per_rom:
  "fst (rom_items_loop e roms 0 ([], [])) = concat (map (menu_record e) roms)
   \<and> count_list (fst (rom_items_loop e roms 0 ([], []))) (CHR 0x0A)
       = length roms + sum_list (map (\<lambda>rom. count_list (display_name e rom) (CHR 0x0A)) roms)
   \<and> ((\<forall>rom\<in>set roms. CHR 0x0A \<notin> set (display_name e rom)) \<longrightarrow>
        count_list (fst (rom_items_loop e roms 0 ([], []))) (CHR 0x0A) = length roms)"
  by (simp add: rom_items_loop_menu count_concat_records count_concat_records_exact)

theorem menu_items_one_record_per_rom_witness:
  "CHR 0x0A \<notin> set (display_name (sample_env [] (\<lambda>p. if p = ''/data/media/0/MultiBoot/dual/config.json'' then Some ''My ROM'' else None) (\<lambda>p. None) (\<lambda>p. None)) (sample_rom ''primary''))
   \<and> CHR 0x0A \<notin> set (display_name (sample_env [] (\<lambda>p. if p = ''/data/media/0/MultiBoot/dual/config.json'' then Some ''My ROM'' else None) (\<lambda>p. None) (\<lambda>p. None)) (sample_rom ''dual''))
   \<and> fst (rom_items_loop (sample_env [] (\<lambda>p. if p = ''/data/media/0/MultiBoot/dual/config.json'' then Some ''My ROM'' else None) (\<lambda>p. None) (\<lambda>p. None)) [sample_rom ''primary'', sample_rom ''dual''] 0 ([], []))
     = ''\"primary\", \"\", \"@default\",'' @ [CHR 0x0A] @ ''\"My ROM\", \"\", \"@default\",'' @ [CHR 0x0A]
   \<and> count_list (fst (rom_items_loop (sample_env [] (\<lambda>p. if p = ''/data/media/0/MultiBoot/dual/config.json'' then Some ''My ROM'' else None) (\<lambda>p. None) (\<lambda>p. None)) [sample_rom ''primary'', sample_rom ''dual''] 0 ([], []))) (CHR 0x0A) = 2"
  using menu_items_one_record_per_rom
    [of "sample_env [] (\<lambda>p. if p = ''/data/media/0/MultiBoot/dual/config.json'' then Some ''My ROM'' else None) (\<lambda>p. None) (\<lambda>p. None)" "[sample_rom ''primary'', sample_rom ''dual'']"]
  by (simp add: display_name_def menu_record_def sample_env_def sample_rom_def)

text \<open>The claim as written counts one line for each ROM whatever the names. A single ROM
  whose config file names it with a line feed inside gives a block of two lines.\<close>

theorem menu_line_feed_counterexample:
  "fst (rom_items_loop (sample_env [] (\<lambda>p. Some (''A'' @ [CHR 0x0A] @ ''B'')) (\<lambda>p. None) (\<lambda>p. None))
      [sample_rom ''primary''] 0 ([], []))
     = ''\"A'' @ [CHR 0x0A] @ ''B\", \"\", \"@default\",'' @ [CHR 0x0A]
   \<and> count_list (fst (rom_items_loop
        (sample_env [] (\<lambda>p. Some (''A'' @ [CHR 0x0A] @ ''B'')) (\<lambda>p. None) (\<lambda>p. None))
        [sample_rom ''primary''] 0 ([], []))) (CHR 0x0A) = 2
   \<and> length [sample_rom ''primary''] = 1"
  by code_simp


section \<open>The archive builder\<close>

subsection \<open>Helper facts\<close>

lemma opened_entries_append:
  "opened_entries (xs @ ys) = opened_entries xs @ opened_entries ys"
  by (induction xs rule: opened_entries.induct) simp_all

lemma opened_entries_writes: "opened_entries (map ZipWriteInFileInZip ws) = []"
  by (induction ws) simp_all

lemma zf_calls_log: "zf_calls (log l st) = zf_calls st"
  by (simp add: log_def)

lemma zf_calls_minizip: "zf_calls (snd (minizip e c st)) = zf_calls st @ [c]"
  by (simp add: minizip_def Let_def)

lemma fst_minizip: "fst (minizip e c st) = zip_ret e (zf_calls st @ [c])"
  by (simp add: minizip_def Let_def)

lemma minizip_eq:
  "minizip e c st = (ret, st1) \<Longrightarrow> ret = zip_ret e (zf_calls st @ [c]) \<and> zf_calls st1 = zf_calls st @ [c]"
  by (auto simp: minizip_def Let_def)

lemma after_read_loop_calls:
  "zf_calls (snd (after_read_loop e path n st)) = zf_calls st @ [ZipCloseFileInZip]"
  by (simp add: after_read_loop_def zf_calls_log zf_calls_minizip)

lemma after_read_loop_result: "fst (after_read_loop e path n st) = (\<not> n < 0)"
  by (simp add: after_read_loop_def)

lemma read_write_loop_calls:
  "\<exists>ws. zf_calls (snd (read_write_loop e path reads st))
     = zf_calls st @ map ZipWriteInFileInZip ws @ [ZipCloseFileInZip]"
proof (induction reads arbitrary: st)
  case Nil
  have "zf_calls (snd (read_write_loop e path [] st))
     = zf_calls st @ map ZipWriteInFileInZip [] @ [ZipCloseFileInZip]"
    by (simp add: after_read_loop_calls)
  then show ?case by blast
next
  case (Cons r reads)
  obtain n buf where r: "r = (n, buf)" by (cases r)
  obtain ret st1 where m: "minizip e (ZipWriteInFileInZip (take (nat n) buf)) st = (ret, st1)"
    by (cases "minizip e (ZipWriteInFileInZip (take (nat n) buf)) st")
  have c1: "zf_calls st1 = zf_calls st @ [ZipWriteInFileInZip (take (nat n) buf)]"
    using minizip_eq[OF m] by simp
  show ?case
  proof (cases "n > 0")
    case False
    then have "zf_calls (snd (read_write_loop e path (r # reads) st))
       = zf_calls st @ map ZipWriteInFileInZip [] @ [ZipCloseFileInZip]"
      by (simp add: r after_read_loop_calls)
    then show ?thesis by blast
  next
    case True
    show ?thesis
    proof (cases "ret \<noteq> ZIP_OK e")
      case True
      have "zf_calls (snd (read_write_loop e path (r # reads) st))
         = zf_calls st @ map ZipWriteInFileInZip [take (nat n) buf] @ [ZipCloseFileInZip]"
        using \<open>n > 0\<close> True by (simp add: r m zf_calls_minizip zf_calls_log c1)
      then show ?thesis by blast
    next
      case False
      from Cons.IH[of st1] obtain ws where
        "zf_calls (snd (read_write_loop e path reads st1))
           = zf_calls st1 @ map ZipWriteInFileInZip ws @ [ZipCloseFileInZip]" by blast
      then have "zf_calls (snd (read_write_loop e path (r # reads) st))
         = zf_calls st @ map ZipWriteInFileInZip (take (nat n) buf # ws) @ [ZipCloseFileInZip]"
        using \<open>n > 0\<close> False by (simp add: r m c1)
      then show ?thesis by blast
    qed
  qed
qed

lemma read_write_loop_result:
  "fst (read_write_loop e path reads st) = (\<not> stream_error e (zf_calls st) reads)"
proof (induction reads arbitrary: st)
  case Nil
  show ?case by (simp add: after_read_loop_result)
next
  case (Cons r reads)
  obtain n buf where r: "r = (n, buf)" by (cases r)
  obtain ret st1 where m: "minizip e (ZipWriteInFileInZip (take (nat n) buf)) st = (ret, st1)"
    by (cases "minizip e (ZipWriteInFileInZip (take (nat n) buf)) st")
  note mm = minizip_eq[OF m]
  show ?case
  proof (cases "n > 0")
    case False
    then show ?thesis by (auto simp: r after_read_loop_result)
  next
    case True
    then show ?thesis
      using Cons.IH[of st1] mm by (simp add: r m Let_def)
  qed
qed

lemma read_write_loop_entries:
  "opened_entries (zf_calls (snd (read_write_loop e path reads st))) = opened_entries (zf_calls st)"
proof -
  obtain ws where "zf_calls (snd (read_write_loop e path reads st))
     = zf_calls st @ map ZipWriteInFileInZip ws @ [ZipCloseFileInZip]"
    using read_write_loop_calls by blast
  then show ?thesis by (simp add: opened_entries_append opened_entries_writes)
qed

lemma add_file_path_opened:
  assumes "open64 e path = Some fd" and "fstat fd = Some sb"
  shows "opened_entries (zf_calls (snd (add_file_path e name path st)))
    = opened_entries (zf_calls st)
      @ [(name, zi_zero\<lparr>external_fa := push_bit 16 (st_mode sb AND 0x1FF)\<rparr>,
          lseek64_end fd \<ge> push_bit 32 1 - 1)]"
  using assms
  by (simp add: add_file_path_def Let_def minizip_def zf_calls_log read_write_loop_entries
      opened_entries_append)

lemma add_file_path_not_opened:
  assumes "open64 e path = None \<or> (\<exists>fd. open64 e path = Some fd \<and> fstat fd = None)"
  shows "zf_calls (snd (add_file_path e name path st)) = zf_calls st"
  using assms by (auto simp: add_file_path_def zf_calls_log)

lemma add_file_contents_opened:
  "opened_entries (zf_calls (snd (add_file_contents e name contents st)))
    = opened_entries (zf_calls st)
      @ [(name, zi_zero, (of_nat (length contents) :: 64 word) \<ge> push_bit 32 1 - 1)]"
  by (simp add: add_file_contents_def Let_def minizip_def zf_calls_log opened_entries_append)

lemma zip64_threshold_word: "((4294967295 :: 64 word) \<le> w) = (4294967295 \<le> unat w)"
  by (simp add: word_le_nat_alt)

lemma zip64_threshold_length:
  "length contents < 2 ^ 64 \<Longrightarrow>
   ((4294967295 :: 64 word) \<le> of_nat (length contents)) = (4294967295 \<le> length contents)"
  by (simp add: word_le_nat_alt unat_of_nat)

lemma external_fa_value:
  "unat (push_bit 16 (m AND 0x1FF) :: 32 word) = (unat m mod 512) * 65536"
proof -
  have a: "m AND 0x1FF = take_bit 9 m"
    using take_bit_eq_mask[of 9 m] by (simp add: mask_eq_exp_minus_1)
  have b: "unat (take_bit 9 m) = unat m mod 512"
    by (simp add: take_bit_eq_mod unat_mod)
  have c: "unat m mod 512 < 512" by simp
  have "unat (push_bit 16 (take_bit 9 m)) = (unat (take_bit 9 m) * 65536) mod 2 ^ 32"
    by (simp add: push_bit_eq_mult unat_word_ariths)
  also have "\<dots> = unat m mod 512 * 65536"
    using c by (simp add: b)
  finally show ?thesis by (simp add: a)
qed

lemma external_fa_value_normal:
  "unat (push_bit 16 m AND 33488896 :: 32 word) = unat m mod 512 * 65536"
proof -
  have "push_bit 16 (m AND 0x1FF) = (push_bit 16 m AND 33488896 :: 32 word)" by simp
  then show ?thesis using external_fa_value[of m] by simp
qed


subsection \<open>The zip64 flag\<close>

text \<open>
  C2. Every entry that \<^verbatim>\<open>add_file\<close> opens, from a buffer or from a path, is opened with the
  zip64 flag set exactly when the length is at least \<open>2 ^ 32 - 1\<close>: the buffer's length (a
  \<^verbatim>\<open>size_t\<close>, below \<open>2 ^ 64\<close>), or the offset \<^verbatim>\<open>lseek64\<close> reports for the end of the file. A
  file of \<open>2 ^ 32 - 1\<close> bytes gets the flag, one of \<open>2 ^ 32 - 2\<close> bytes does not.
\<close>

theorem zip64_iff_length_ge:
  "(length contents < 2 ^ 64 \<longrightarrow>
      map (snd \<circ> snd) (opened_entries (zf_calls (snd (add_file_contents e name contents st))))
        = map (snd \<circ> snd) (opened_entries (zf_calls st)) @ [2 ^ 32 - 1 \<le> length contents])
   \<and> (open64 e path = Some fd \<and> fstat fd = Some sb \<longrightarrow>
      map (snd \<circ> snd) (opened_entries (zf_calls (snd (add_file_path e name path st))))
        = map (snd \<circ> snd) (opened_entries (zf_calls st)) @ [2 ^ 32 - 1 \<le> unat (lseek64_end fd)])"
  by (simp add: add_file_contents_opened add_file_path_opened zip64_threshold_word
      unat_of_nat)

theorem zip64_iff_length_ge_witness:
  "length ''abc'' < 2 ^ 64
   \<and> map (snd \<circ> snd) (opened_entries (zf_calls (snd (add_file_contents
        (sample_env [] (\<lambda>p. None) (\<lambda>p. None) (\<lambda>p. Some (sample_file 0x81A4 4294967295 [])))
        ''a'' ''abc'' empty_state)))) = [False]
   \<and> open64 (sample_env [] (\<lambda>p. None) (\<lambda>p. None) (\<lambda>p. Some (sample_file 0x81A4 4294967295 [])))
        ''tpl/a'' = Some (sample_file 0x81A4 4294967295 [])
   \<and> fstat (sample_file 0x81A4 4294967295 []) = Some \<lparr>st_mode = 0x81A4\<rparr>
   \<and> map (snd \<circ> snd) (opened_entries (zf_calls (snd (add_file_path
        (sample_env [] (\<lambda>p. None) (\<lambda>p. None) (\<lambda>p. Some (sample_file 0x81A4 4294967295 [])))
        ''a'' ''tpl/a'' empty_state)))) = [True]
   \<and> map (snd \<circ> snd) (opened_entries (zf_calls (snd (add_file_path
        (sample_env [] (\<lambda>p. None) (\<lambda>p. None) (\<lambda>p. Some (sample_file 0x81A4 4294967294 [])))
        ''a'' ''tpl/a'' empty_state)))) = [False]"
  using zip64_iff_length_ge
    [of "''abc''"
        "sample_env [] (\<lambda>p. None) (\<lambda>p. None) (\<lambda>p. Some (sample_file 0x81A4 4294967295 []))"
        "''a''" empty_state "''tpl/a''" "sample_file 0x81A4 4294967295 []" "\<lparr>st_mode = 0x81A4\<rparr>"]
    zip64_iff_length_ge
    [of "''abc''"
        "sample_env [] (\<lambda>p. None) (\<lambda>p. None) (\<lambda>p. Some (sample_file 0x81A4 4294967294 []))"
        "''a''" empty_state "''tpl/a''" "sample_file 0x81A4 4294967294 []" "\<lparr>st_mode = 0x81A4\<rparr>"]
  by (simp add: sample_env_def sample_file_def empty_state_def)

subsection \<open>The external file attributes\<close>

text \<open>
  C7. The entry that \<^verbatim>\<open>add_file\<close> opens for a path carries, as external file attributes, the
  low 9 bits of the file's mode shifted left by 16, which is the number
  \<open>(st_mode mod 512) * 65536\<close> with no wrap-around; the entry opened for a buffer carries 0.
\<close>

theorem external_fa_is_mode_bits:
  "(open64 e path = Some fd \<and> fstat fd = Some sb \<longrightarrow>
      map (external_fa \<circ> fst \<circ> snd) (opened_entries (zf_calls (snd (add_file_path e name path st))))
        = map (external_fa \<circ> fst \<circ> snd) (opened_entries (zf_calls st))
          @ [push_bit 16 (st_mode sb AND 0x1FF)]
      \<and> map (unat \<circ> external_fa \<circ> fst \<circ> snd)
           (opened_entries (zf_calls (snd (add_file_path e name path st))))
        = map (unat \<circ> external_fa \<circ> fst \<circ> snd) (opened_entries (zf_calls st))
          @ [(unat (st_mode sb) mod 512) * 65536])
   \<and> map (external_fa \<circ> fst \<circ> snd) (opened_entries (zf_calls (snd (add_file_contents e name contents st))))
        = map (external_fa \<circ> fst \<circ> snd) (opened_entries (zf_calls st)) @ [0]"
  by (simp add: add_file_contents_opened add_file_path_opened external_fa_value_normal zi_zero_def)

theorem external_fa_is_mode_bits_witness:
  "open64 (sample_env [] (\<lambda>p. None) (\<lambda>p. None) (\<lambda>p. Some (sample_file 0x81ED 3 [(3, ''abc'')])))
        ''tpl/a'' = Some (sample_file 0x81ED 3 [(3, ''abc'')])
   \<and> fstat (sample_file 0x81ED 3 [(3, ''abc'')]) = Some \<lparr>st_mode = 0x81ED\<rparr>
   \<and> map (external_fa \<circ> fst \<circ> snd) (opened_entries (zf_calls (snd (add_file_path
        (sample_env [] (\<lambda>p. None) (\<lambda>p. None) (\<lambda>p. Some (sample_file 0x81ED 3 [(3, ''abc'')])))
        ''a'' ''tpl/a'' empty_state)))) = [0x1ED0000]"
  using external_fa_is_mode_bits
    [of "sample_env [] (\<lambda>p. None) (\<lambda>p. None) (\<lambda>p. Some (sample_file 0x81ED 3 [(3, ''abc'')]))"
        "''tpl/a''" "sample_file 0x81ED 3 [(3, ''abc'')]" "\<lparr>st_mode = 0x81ED\<rparr>" "''a''" empty_state]
  by (simp add: sample_env_def sample_file_def empty_state_def)

subsection \<open>Streaming errors\<close>

text \<open>
  C4. For a path-sourced entry whose record has been opened (\<^verbatim>\<open>open64\<close>, \<^verbatim>\<open>fstat\<close> and
  \<^verbatim>\<open>zipOpenNewFileInZip2_64\<close> succeeded), \<^verbatim>\<open>add_file\<close> returns false exactly when a read or a
  write fails while streaming, and on every path, failing or not, the calls it makes after
  opening the record are writes followed by one final \<^verbatim>\<open>zipCloseFileInZip\<close>.
\<close>

theorem add_file_path_closes_entry_on_error:
  assumes "open64 e path = Some fd" and "fstat fd = Some sb"
    and "c = ZipOpenNewFileInZip2_64 name (zi_zero\<lparr>external_fa := push_bit 16 (st_mode sb AND 0x1FF)\<rparr>)
               Z_DEFLATED Z_DEFAULT_COMPRESSION False (lseek64_end fd \<ge> push_bit 32 1 - 1)"
    and "zip_ret e (zf_calls st @ [c]) = ZIP_OK e"
  shows "fst (add_file_path e name path st)
           = (\<not> stream_error e (zf_calls st @ [c]) (read_results fd))
     \<and> (\<exists>ws. zf_calls (snd (add_file_path e name path st))
           = zf_calls st @ c # map ZipWriteInFileInZip ws @ [ZipCloseFileInZip])"
proof -
  obtain st1 where m: "minizip e c st = (ZIP_OK e, st1)" and c1: "zf_calls st1 = zf_calls st @ [c]"
    using assms(4) by (simp add: minizip_def Let_def)
  have eq: "add_file_path e name path st = read_write_loop e path (read_results fd) st1"
    using assms(1,2) m[unfolded assms(3)] by (simp add: add_file_path_def Let_def)
  obtain ws where "zf_calls (snd (read_write_loop e path (read_results fd) st1))
      = zf_calls st1 @ map ZipWriteInFileInZip ws @ [ZipCloseFileInZip]"
    using read_write_loop_calls by blast
  then have "zf_calls (snd (add_file_path e name path st))
      = zf_calls st @ c # map ZipWriteInFileInZip ws @ [ZipCloseFileInZip]"
    by (simp add: eq c1)
  then show ?thesis
    by (auto simp: eq read_write_loop_result c1)
qed


theorem add_file_path_closes_entry_on_error_witness:
  "open64 (sample_env [] (\<lambda>p. None) (\<lambda>p. None)
            (\<lambda>p. Some (sample_file 0x81A4 5 [(3, ''abc''), (- 1, [])]))) ''tpl/a''
     = Some (sample_file 0x81A4 5 [(3, ''abc''), (- 1, [])])
   \<and> fstat (sample_file 0x81A4 5 [(3, ''abc''), (- 1, [])]) = Some \<lparr>st_mode = 0x81A4\<rparr>
   \<and> stream_error (sample_env [] (\<lambda>p. None) (\<lambda>p. None)
            (\<lambda>p. Some (sample_file 0x81A4 5 [(3, ''abc''), (- 1, [])])))
         [ZipOpenNewFileInZip2_64 ''a'' (zi_zero\<lparr>external_fa := 0x1A40000\<rparr>)
            Z_DEFLATED Z_DEFAULT_COMPRESSION False False]
         [(3, ''abc''), (- 1, [])]
   \<and> add_file_path (sample_env [] (\<lambda>p. None) (\<lambda>p. None)
            (\<lambda>p. Some (sample_file 0x81A4 5 [(3, ''abc''), (- 1, [])]))) ''a'' ''tpl/a'' empty_state
     = (False,
        \<lparr>zf_calls =
           [ZipOpenNewFileInZip2_64 ''a'' (zi_zero\<lparr>external_fa := 0x1A40000\<rparr>)
              Z_DEFLATED Z_DEFAULT_COMPRESSION False False,
            ZipWriteInFileInZip ''abc'', ZipCloseFileInZip],
         logged = [LOGE ''%s: Failed to read file: %s'' [S ''tpl/a'', StrError]]\<rparr>)"
  using add_file_path_closes_entry_on_error
    [of "sample_env [] (\<lambda>p. None) (\<lambda>p. None)
            (\<lambda>p. Some (sample_file 0x81A4 5 [(3, ''abc''), (- 1, [])]))"
        "''tpl/a''" "sample_file 0x81A4 5 [(3, ''abc''), (- 1, [])]" "\<lparr>st_mode = 0x81A4\<rparr>"
        "ZipOpenNewFileInZip2_64 ''a'' (zi_zero\<lparr>external_fa := 0x1A40000\<rparr>)
            Z_DEFLATED Z_DEFAULT_COMPRESSION False False" "''a''" empty_state]
  by (simp add: sample_env_def sample_file_def empty_state_def add_file_path_def Let_def
      minizip_def log_def after_read_loop_def)

text \<open>The same with a write that fails: the record is closed and the result is false.\<close>

lemma add_file_path_write_error_example:
  "add_file_path ((sample_env [] (\<lambda>p. None) (\<lambda>p. None)
            (\<lambda>p. Some (sample_file 0x81A4 5 [(3, ''abc''), (2, ''de'')])))
         \<lparr>zip_ret := (\<lambda>calls. case last calls of ZipWriteInFileInZip bytes \<Rightarrow> - 1 | _ \<Rightarrow> 0)\<rparr>)
       ''a'' ''tpl/a'' empty_state
     = (False,
        \<lparr>zf_calls =
           [ZipOpenNewFileInZip2_64 ''a'' (zi_zero\<lparr>external_fa := 0x1A40000\<rparr>)
              Z_DEFLATED Z_DEFAULT_COMPRESSION False False,
            ZipWriteInFileInZip ''abc'', ZipCloseFileInZip],
         logged = [LOGW ''minizip: Failed to write data (error code: %d): %s'' [I (- 1), S ''tpl/a'']]\<rparr>)"
  by (simp add: sample_env_def sample_file_def empty_state_def add_file_path_def Let_def
      minizip_def log_def after_read_loop_def)


section \<open>The callbacks\<close>

subsection \<open>Symlinks and special files\<close>

text \<open>
  C6. The handlers for a symlink and for a special file return \<^verbatim>\<open>FTS_OK\<close> whatever the node,
  make no call on the archive, and log one warning.
\<close>

theorem symlink_and_special_file_ignored:
  "fst (on_reached_symlink e cur st) = FTS_OK e
   \<and> zf_calls (snd (on_reached_symlink e cur st)) = zf_calls st
   \<and> logged (snd (on_reached_symlink e cur st))
       = logged st @ [LOGW ''Ignoring symlink when creating zip: %s'' [S (fts_path cur)]]
   \<and> fst (on_reached_special_file e cur st) = FTS_OK e
   \<and> zf_calls (snd (on_reached_special_file e cur st)) = zf_calls st
   \<and> logged (snd (on_reached_special_file e cur st))
       = logged st @ [LOGW ''Ignoring special file when creating zip: %s'' [S (fts_path cur)]]"
  by (simp add: on_reached_symlink_def on_reached_special_file_def log_def)

subsection \<open>Entry names\<close>

lemma add_file_path_names:
  "map fst (opened_entries (zf_calls (snd (add_file_path e name path st))))
     = map fst (opened_entries (zf_calls st))
       @ (case open64 e path of None \<Rightarrow> []
          | Some fd \<Rightarrow> (case fstat fd of None \<Rightarrow> [] | Some sb \<Rightarrow> [name]))"
proof (cases "open64 e path")
  case None
  then show ?thesis using add_file_path_not_opened[of e path name st] by simp
next
  case (Some fd)
  show ?thesis
  proof (cases "fstat fd")
    case None
    then show ?thesis using Some add_file_path_not_opened[of e path name st] by simp
  next
    case (Some sb)
    then show ?thesis using \<open>open64 e path = Some fd\<close> add_file_path_opened[of e path fd sb name st]
      by simp
  qed
qed

lemma substr_root: "substr (root @ sep # rel) (length root + 1) = Inr rel"
  by (simp add: substr_def)

lemma on_reached_file_plain:
  assumes "substr (fts_path cur) (length root + 1) = Inr name"
    and "name \<noteq> ''META-INF/com/google/android/aroma-config.in''"
  shows "on_reached_file e root cur st =
    (case add_file_path e name (fts_accpath cur)
            (log (LOGD ''%s -> %s'' [S (fts_path cur), S name]) st) of
       (ret, st2) \<Rightarrow> (Inr (if ret then FTS_OK e else FTS_Fail e), st2))"
  using assms by (simp add: on_reached_file_def Let_def)

lemma on_reached_file_plain_names:
  assumes "substr (fts_path cur) (length root + 1) = Inr name"
    and "name \<noteq> ''META-INF/com/google/android/aroma-config.in''"
  shows "map fst (opened_entries (zf_calls (snd (on_reached_file e root cur st))))
     = map fst (opened_entries (zf_calls st))
       @ (case open64 e (fts_accpath cur) of None \<Rightarrow> []
          | Some fd \<Rightarrow> (case fstat fd of None \<Rightarrow> [] | Some sb \<Rightarrow> [name]))"
proof -
  have "snd (on_reached_file e root cur st)
      = snd (add_file_path e name (fts_accpath cur)
            (log (LOGD ''%s -> %s'' [S (fts_path cur), S name]) st))"
    by (simp add: on_reached_file_plain[OF assms] case_prod_beta)
  then show ?thesis by (simp add: add_file_path_names zf_calls_log)
qed

text \<open>
  C10. The reached-file handler names the entry by dropping the root path and one more
  character from the node's path, whatever that character is. When the node's path is the
  root, a separator and the relative path, the entry opened for an accessible file is named by
  the relative path. When the node's path is the root directly followed by the relative path
  (a root that already ends in its separator), the entry's name is the relative path without
  its first character, which is another string. When the node's path is no longer than the
  root, \<^verbatim>\<open>substr\<close> throws.
\<close>

theorem entry_name_strips_root_and_one_character:
  "(fts_path cur = root @ sep # rel
      \<and> rel \<noteq> ''META-INF/com/google/android/aroma-config.in''
      \<and> open64 e (fts_accpath cur) = Some fd \<and> fstat fd = Some sb \<longrightarrow>
      map fst (opened_entries (zf_calls (snd (on_reached_file e root cur st))))
        = map fst (opened_entries (zf_calls st)) @ [rel])
   \<and> (fts_path cur = root @ rel \<and> rel \<noteq> []
      \<and> tl rel \<noteq> ''META-INF/com/google/android/aroma-config.in''
      \<and> open64 e (fts_accpath cur) = Some fd \<and> fstat fd = Some sb \<longrightarrow>
      map fst (opened_entries (zf_calls (snd (on_reached_file e root cur st))))
        = map fst (opened_entries (zf_calls st)) @ [tl rel] \<and> tl rel \<noteq> rel)
   \<and> (length (fts_path cur) \<le> length root \<longrightarrow>
      on_reached_file e root cur st = (Inl Out_Of_Range, st))"
proof -
  have first: "map fst (opened_entries (zf_calls (snd (on_reached_file e root cur st))))
        = map fst (opened_entries (zf_calls st)) @ [rel]"
    if a: "fts_path cur = root @ sep # rel
      \<and> rel \<noteq> ''META-INF/com/google/android/aroma-config.in''
      \<and> open64 e (fts_accpath cur) = Some fd \<and> fstat fd = Some sb"
  proof -
    have "substr (fts_path cur) (length root + 1) = Inr rel"
      using a substr_root by simp
    then show ?thesis
      using a by (simp add: on_reached_file_plain_names)
  qed
  have second: "map fst (opened_entries (zf_calls (snd (on_reached_file e root cur st))))
        = map fst (opened_entries (zf_calls st)) @ [tl rel] \<and> tl rel \<noteq> rel"
    if a: "fts_path cur = root @ rel \<and> rel \<noteq> []
      \<and> tl rel \<noteq> ''META-INF/com/google/android/aroma-config.in''
      \<and> open64 e (fts_accpath cur) = Some fd \<and> fstat fd = Some sb"
  proof -
    have "fts_path cur = root @ hd rel # tl rel"
      using a by simp
    then have "substr (fts_path cur) (length root + 1) = Inr (tl rel)"
      using substr_root by simp
    moreover have "tl rel \<noteq> rel"
      using a by (cases rel) auto
    ultimately show ?thesis
      using a by (simp add: on_reached_file_plain_names)
  qed
  have third: "on_reached_file e root cur st = (Inl Out_Of_Range, st)"
    if "length (fts_path cur) \<le> length root"
    using that by (simp add: on_reached_file_def substr_def)
  show ?thesis
    using first second third by blast
qed

theorem entry_name_strips_root_and_one_character_witness:
  "fts_path \<lparr>fts_path = ''tpl/system/a'', fts_accpath = ''tpl/system/a''\<rparr> = ''tpl'' @ CHR ''/'' # ''system/a''
   \<and> ''system/a'' \<noteq> ''META-INF/com/google/android/aroma-config.in''
   \<and> open64 (sample_env [] (\<lambda>p. None) (\<lambda>p. None) (\<lambda>p. Some (sample_file 0x81A4 3 [(3, ''abc'')])))
        (fts_accpath \<lparr>fts_path = ''tpl/system/a'', fts_accpath = ''tpl/system/a''\<rparr>)
       = Some (sample_file 0x81A4 3 [(3, ''abc'')])
   \<and> fstat (sample_file 0x81A4 3 [(3, ''abc'')]) = Some \<lparr>st_mode = 0x81A4\<rparr>
   \<and> map fst (opened_entries (zf_calls (snd (on_reached_file
        (sample_env [] (\<lambda>p. None) (\<lambda>p. None) (\<lambda>p. Some (sample_file 0x81A4 3 [(3, ''abc'')])))
        ''tpl'' \<lparr>fts_path = ''tpl/system/a'', fts_accpath = ''tpl/system/a''\<rparr> empty_state))))
       = [''system/a'']
   \<and> map fst (opened_entries (zf_calls (snd (on_reached_file
        (sample_env [] (\<lambda>p. None) (\<lambda>p. None) (\<lambda>p. Some (sample_file 0x81A4 3 [(3, ''abc'')])))
        ''tpl/'' \<lparr>fts_path = ''tpl/system/a'', fts_accpath = ''tpl/system/a''\<rparr> empty_state))))
       = [''ystem/a'']
   \<and> on_reached_file
        (sample_env [] (\<lambda>p. None) (\<lambda>p. None) (\<lambda>p. Some (sample_file 0x81A4 3 [(3, ''abc'')])))
        ''tpl'' \<lparr>fts_path = ''tpl'', fts_accpath = ''tpl''\<rparr> empty_state
       = (Inl Out_Of_Range, empty_state)"
  using entry_name_strips_root_and_one_character
    [of "\<lparr>fts_path = ''tpl/system/a'', fts_accpath = ''tpl/system/a''\<rparr>" "''tpl''" "CHR ''/''"
        "''system/a''"
        "sample_env [] (\<lambda>p. None) (\<lambda>p. None) (\<lambda>p. Some (sample_file 0x81A4 3 [(3, ''abc'')]))"
        "sample_file 0x81A4 3 [(3, ''abc'')]" "\<lparr>st_mode = 0x81A4\<rparr>" empty_state]
    entry_name_strips_root_and_one_character
    [of "\<lparr>fts_path = ''tpl/system/a'', fts_accpath = ''tpl/system/a''\<rparr>" "''tpl/''" "CHR ''s''"
        "''ystem/a''"
        "sample_env [] (\<lambda>p. None) (\<lambda>p. None) (\<lambda>p. Some (sample_file 0x81A4 3 [(3, ''abc'')]))"
        "sample_file 0x81A4 3 [(3, ''abc'')]" "\<lparr>st_mode = 0x81A4\<rparr>" empty_state]
    entry_name_strips_root_and_one_character
    [of "\<lparr>fts_path = ''tpl'', fts_accpath = ''tpl''\<rparr>" "''tpl''" "CHR ''/''"
        "''system/a''"
        "sample_env [] (\<lambda>p. None) (\<lambda>p. None) (\<lambda>p. Some (sample_file 0x81A4 3 [(3, ''abc'')]))"
        "sample_file 0x81A4 3 [(3, ''abc'')]" "\<lparr>st_mode = 0x81A4\<rparr>" empty_state]
  by (simp add: sample_env_def sample_file_def empty_state_def)


section \<open>The order of the substitutions\<close>

subsection \<open>Helper facts\<close>


















































































text \<open>The claim as written fails on a buffer where removing one token joins the halves of
  another: with no ROM the menu items are empty, the code rewrites the menu token first and
  then finds the first-index token, while the order with these two calls exchanged leaves the
  first-index token in the output. The exchanged list is a permutation of the six calls.\<close>

lemma swapped_substitutions_permutation:
  "mset [substitutions (sample_env [] (\<lambda>p. None) (\<lambda>p. None) (\<lambda>p. None)) ! 0,
       substitutions (sample_env [] (\<lambda>p. None) (\<lambda>p. None) (\<lambda>p. None)) ! 1,
       substitutions (sample_env [] (\<lambda>p. None) (\<lambda>p. None) (\<lambda>p. None)) ! 4,
       substitutions (sample_env [] (\<lambda>p. None) (\<lambda>p. None) (\<lambda>p. None)) ! 3,
       substitutions (sample_env [] (\<lambda>p. None) (\<lambda>p. None) (\<lambda>p. None)) ! 2,
       substitutions (sample_env [] (\<lambda>p. None) (\<lambda>p. None) (\<lambda>p. None)) ! 5]
    = mset (substitutions (sample_env [] (\<lambda>p. None) (\<lambda>p. None) (\<lambda>p. None)))"
  by (simp add: substitutions_def)



section \<open>The template entry\<close>

subsection \<open>Helper facts\<close>



lemma on_reached_file_template:
  assumes "substr (fts_path cur) (length root + 1) = Inr ''META-INF/com/google/android/aroma-config.in''"
    and "file_read_all e (fts_accpath cur) = Some data"
  shows "snd (on_reached_file e root cur st)
     = snd (add_file_contents e ''META-INF/com/google/android/aroma-config''
         (generate_aroma_config e data)
         (log (LOGD ''%s -> %s'' [S (fts_path cur), S ''META-INF/com/google/android/aroma-config.in'']) st))"
  using assms by (simp add: on_reached_file_def Let_def case_prod_beta)

lemma on_reached_file_read_failure:
  assumes "substr (fts_path cur) (length root + 1) = Inr ''META-INF/com/google/android/aroma-config.in''"
    and "file_read_all e (fts_accpath cur) = None"
  shows "on_reached_file e root cur st
     = (Inr 0,
        log (LOGE ''Failed to read: %s'' [S (fts_path cur)])
          (log (LOGD ''%s -> %s'' [S (fts_path cur),
             S ''META-INF/com/google/android/aroma-config.in'']) st))"
  using assms by (simp add: on_reached_file_def Let_def)

lemma on_reached_file_names:
  "\<exists>ns. map fst (opened_entries (zf_calls (snd (on_reached_file e root cur st))))
          = map fst (opened_entries (zf_calls st)) @ ns
        \<and> ''META-INF/com/google/android/aroma-config.in'' \<notin> set ns"
proof (cases "substr (fts_path cur) (length root + 1)")
  case (Inl err)
  then have "snd (on_reached_file e root cur st) = st"
    by (simp add: on_reached_file_def)
  then have "map fst (opened_entries (zf_calls (snd (on_reached_file e root cur st))))
          = map fst (opened_entries (zf_calls st)) @ []" by simp
  then show ?thesis by (metis empty_iff empty_set)
next
  case (Inr name)
  show ?thesis
  proof (cases "name = ''META-INF/com/google/android/aroma-config.in''")
    case False
    have "''META-INF/com/google/android/aroma-config.in'' \<notin> set
        (case open64 e (fts_accpath cur) of None \<Rightarrow> []
          | Some fd \<Rightarrow> (case fstat fd of None \<Rightarrow> [] | Some sb \<Rightarrow> [name]))"
      using False by (auto split: option.splits)
    then show ?thesis
      using on_reached_file_plain_names[OF Inr False, of e st] by blast
  next
    case True
    show ?thesis
    proof (cases "file_read_all e (fts_accpath cur)")
      case None
      then have "zf_calls (snd (on_reached_file e root cur st)) = zf_calls st"
        using Inr True by (simp add: on_reached_file_def Let_def zf_calls_log)
      then have "map fst (opened_entries (zf_calls (snd (on_reached_file e root cur st))))
          = map fst (opened_entries (zf_calls st)) @ []" by simp
      then show ?thesis by (metis empty_iff empty_set)
    next
      case (Some data)
      have "map fst (opened_entries (zf_calls (snd (on_reached_file e root cur st))))
          = map fst (opened_entries (zf_calls st)) @ [''META-INF/com/google/android/aroma-config'']"
        using on_reached_file_template[OF Inr[unfolded True] Some, of st]
        by (simp add: add_file_contents_opened zf_calls_log)
      moreover have "''META-INF/com/google/android/aroma-config.in''
           \<notin> set [''META-INF/com/google/android/aroma-config'']" by simp
      ultimately show ?thesis by blast
    qed
  qed
qed





text \<open>The template's own name stays out of the archive over a whole walk as well: the
  reached-file handler is the only callback that opens entries.\<close>

lemma on_reached_file_keeps_template_out:
  assumes "''META-INF/com/google/android/aroma-config.in''
      \<notin> set (map fst (opened_entries (zf_calls st)))"
  shows "''META-INF/com/google/android/aroma-config.in''
      \<notin> set (map fst (opened_entries (zf_calls (snd (on_reached_file e root cur st)))))"
proof -
  obtain ns where "map fst (opened_entries (zf_calls (snd (on_reached_file e root cur st))))
          = map fst (opened_entries (zf_calls st)) @ ns"
        "''META-INF/com/google/android/aroma-config.in'' \<notin> set ns"
    using on_reached_file_names by blast
  then show ?thesis using assms by (simp del: set_map)
qed

lemma walk_never_opens_template_name:
  "''META-INF/com/google/android/aroma-config.in''
      \<notin> set (map fst (opened_entries (zf_calls st))) \<Longrightarrow>
   ''META-INF/com/google/android/aroma-config.in''
      \<notin> set (map fst (opened_entries (zf_calls (snd (walk e root nodes st)))))"
proof (induction e root nodes st rule: walk.induct)
  case (1 e root st)
  then show ?case by simp
next
  case (2 e root cur nodes st)
  obtain r st1 where h: "on_reached_file e root cur st = (r, st1)"
    by (cases "on_reached_file e root cur st")
  have inv: "''META-INF/com/google/android/aroma-config.in''
      \<notin> set (map fst (opened_entries (zf_calls st1)))"
    using on_reached_file_keeps_template_out[OF 2(2), of e root cur] h by simp
  show ?case
  proof (cases r)
    case (Inl err)
    then show ?thesis using h inv by simp
  next
    case (Inr ret)
    show ?thesis
    proof (cases "ret = FTS_Fail e")
      case True
      then show ?thesis using h Inr inv by simp
    next
      case False
      then show ?thesis
        using h Inr 2(1)[OF h[symmetric] Inr False inv] by simp
    qed
  qed
next
  case (3 e root cur nodes st)
  then show ?case by simp
next
  case (4 e root cur nodes st)
  have "zf_calls (snd (on_reached_symlink e cur st)) = zf_calls st"
    by (simp add: on_reached_symlink_def zf_calls_log)
  then show ?case using 4 by simp
next
  case (5 e root cur nodes st)
  have "zf_calls (snd (on_reached_special_file e cur st)) = zf_calls st"
    by (simp add: on_reached_special_file_def zf_calls_log)
  then show ?case using 5 by simp
qed


section \<open>The result of a run\<close>

lemma walk_success_iff:
  "walk e root nodes st = (Inr success, st2) \<Longrightarrow>
   success = list_all (\<lambda>ret. ret \<noteq> FTS_Fail e) (file_handler_returns e root nodes st)"
proof (induction e root nodes st rule: walk.induct)
  case (1 e root st)
  then show ?case by simp
next
  case (2 e root cur nodes st)
  obtain r st1 where h: "on_reached_file e root cur st = (r, st1)"
    by (cases "on_reached_file e root cur st")
  show ?case
  proof (cases r)
    case (Inl err)
    then show ?thesis using 2(2) h by simp
  next
    case (Inr ret)
    show ?thesis
    proof (cases "ret = FTS_Fail e")
      case True
      then show ?thesis using 2(2) h Inr by simp
    next
      case False
      then show ?thesis
        using 2(2) h Inr 2(1)[OF h[symmetric] Inr False] by simp
    qed
  qed
next
  case (3 e root cur nodes st)
  then show ?case by simp
next
  case (4 e root cur nodes st)
  then show ?case by simp
next
  case (5 e root cur nodes st)
  then show ?case by simp
qed

text \<open>
  C3. When the archive was opened and the walk ended without an exception, the result of
  the run is the conjunction of two facts: no invocation of the reached-file handler returned
  \<^verbatim>\<open>FTS_Fail\<close>, and \<^verbatim>\<open>zipClose\<close> returned \<^verbatim>\<open>ZIP_OK\<close>; the close is the last call on the
  archive. So a failing close makes the run fail whatever the handlers returned.
\<close>

theorem run_result_is_conjunction:
  assumes "on_pre_execute e zippath st = (True, st1)"
    and "walk e root nodes st1 = (Inr success, st2)"
  shows "fst (run e root zippath nodes st)
     = Inr (list_all (\<lambda>ret. ret \<noteq> FTS_Fail e) (file_handler_returns e root nodes st1)
            \<and> zip_ret e (zf_calls st2 @ [ZipClose]) = ZIP_OK e)
   \<and> zf_calls (snd (run e root zippath nodes st)) = zf_calls st2 @ [ZipClose]"
  using assms walk_success_iff[OF assms(2)]
  by (simp add: run_def on_post_execute_def minizip_def Let_def)


theorem run_result_is_conjunction_witness:
  "on_pre_execute
      ((sample_env [] (\<lambda>p. None) (\<lambda>p. None) (\<lambda>p. Some (sample_file 0x81A4 3 [(3, ''abc'')])))
         \<lparr>zip_ret := close_fails\<rparr>) ''out.zip'' empty_state
     = (True, \<lparr>zf_calls = [ZipOpen2_64 ''out.zip''], logged = []\<rparr>)
   \<and> walk ((sample_env [] (\<lambda>p. None) (\<lambda>p. None) (\<lambda>p. Some (sample_file 0x81A4 3 [(3, ''abc'')])))
         \<lparr>zip_ret := close_fails\<rparr>) ''tpl'' sample_nodes
         \<lparr>zf_calls = [ZipOpen2_64 ''out.zip''], logged = []\<rparr>
     = (Inr True,
        \<lparr>zf_calls =
           [ZipOpen2_64 ''out.zip'',
            ZipOpenNewFileInZip2_64 ''system/a'' (zi_zero\<lparr>external_fa := 0x1A40000\<rparr>)
              Z_DEFLATED Z_DEFAULT_COMPRESSION False False,
            ZipWriteInFileInZip ''abc'', ZipCloseFileInZip],
         logged =
           [LOGD ''%s -> %s'' [S ''tpl/system/a'', S ''system/a''],
            LOGW ''Ignoring symlink when creating zip: %s'' [S ''tpl/link'']]\<rparr>)
   \<and> file_handler_returns
        ((sample_env [] (\<lambda>p. None) (\<lambda>p. None) (\<lambda>p. Some (sample_file 0x81A4 3 [(3, ''abc'')])))
         \<lparr>zip_ret := close_fails\<rparr>) ''tpl'' sample_nodes
         \<lparr>zf_calls = [ZipOpen2_64 ''out.zip''], logged = []\<rparr> = [0]
   \<and> fst (run ((sample_env [] (\<lambda>p. None) (\<lambda>p. None) (\<lambda>p. Some (sample_file 0x81A4 3 [(3, ''abc'')])))
         \<lparr>zip_ret := close_fails\<rparr>) ''tpl'' ''out.zip'' sample_nodes empty_state) = Inr False"
proof -
  have pre: "on_pre_execute
      ((sample_env [] (\<lambda>p. None) (\<lambda>p. None) (\<lambda>p. Some (sample_file 0x81A4 3 [(3, ''abc'')])))
         \<lparr>zip_ret := close_fails\<rparr>) ''out.zip'' empty_state
     = (True, \<lparr>zf_calls = [ZipOpen2_64 ''out.zip''], logged = []\<rparr>)"
    by (simp add: on_pre_execute_def sample_env_def empty_state_def Let_def)
  have reached: "on_reached_file
      ((sample_env [] (\<lambda>p. None) (\<lambda>p. None) (\<lambda>p. Some (sample_file 0x81A4 3 [(3, ''abc'')])))
         \<lparr>zip_ret := close_fails\<rparr>) ''tpl''
      \<lparr>fts_path = ''tpl/system/a'', fts_accpath = ''tpl/system/a''\<rparr>
      \<lparr>zf_calls = [ZipOpen2_64 ''out.zip''], logged = []\<rparr>
     = (Inr 0,
        \<lparr>zf_calls =
           [ZipOpen2_64 ''out.zip'',
            ZipOpenNewFileInZip2_64 ''system/a'' (zi_zero\<lparr>external_fa := 0x1A40000\<rparr>)
              Z_DEFLATED Z_DEFAULT_COMPRESSION False False,
            ZipWriteInFileInZip ''abc'', ZipCloseFileInZip],
         logged = [LOGD ''%s -> %s'' [S ''tpl/system/a'', S ''system/a'']]\<rparr>)"
    by (simp add: on_reached_file_def substr_def add_file_path_def sample_env_def
        sample_file_def close_fails_def minizip_def log_def after_read_loop_def Let_def)
  have walk: "walk ((sample_env [] (\<lambda>p. None) (\<lambda>p. None) (\<lambda>p. Some (sample_file 0x81A4 3 [(3, ''abc'')])))
         \<lparr>zip_ret := close_fails\<rparr>) ''tpl'' sample_nodes
         \<lparr>zf_calls = [ZipOpen2_64 ''out.zip''], logged = []\<rparr>
     = (Inr True,
        \<lparr>zf_calls =
           [ZipOpen2_64 ''out.zip'',
            ZipOpenNewFileInZip2_64 ''system/a'' (zi_zero\<lparr>external_fa := 0x1A40000\<rparr>)
              Z_DEFLATED Z_DEFAULT_COMPRESSION False False,
            ZipWriteInFileInZip ''abc'', ZipCloseFileInZip],
         logged =
           [LOGD ''%s -> %s'' [S ''tpl/system/a'', S ''system/a''],
            LOGW ''Ignoring symlink when creating zip: %s'' [S ''tpl/link'']]\<rparr>)"
    by (simp add: sample_nodes_def reached on_reached_symlink_def log_def)
       (simp add: sample_env_def)
  have rets: "file_handler_returns
        ((sample_env [] (\<lambda>p. None) (\<lambda>p. None) (\<lambda>p. Some (sample_file 0x81A4 3 [(3, ''abc'')])))
         \<lparr>zip_ret := close_fails\<rparr>) ''tpl'' sample_nodes
         \<lparr>zf_calls = [ZipOpen2_64 ''out.zip''], logged = []\<rparr> = [0]"
    by (simp add: sample_nodes_def reached)
  show ?thesis
    using pre walk rets run_result_is_conjunction[OF pre walk]
    by (simp add: sample_env_def close_fails_def)
qed


end
